theory Spec2Isabelle
  imports Main
begin

section \<open>Values, configuration and effects\<close>

text \<open>
  The extension (client/src/extension.ts) is glue between the editor, the file system and
  the language server. The model keeps the state it reads and writes in one record, the
  world, and every call it makes to the outside (a configuration write, a message shown to
  the user, a notification sent to the server) as an entry of the world's list of effects,
  in the order of the calls.
\<close>

text \<open>
  The JavaScript values a configuration key of this extension can hold. An unset key reads
  as \<open>Undefined\<close>; \<open>null\<close> is a value of its own, and \<open>===\<close> tells the two apart.
\<close>

datatype jsval = Undefined | Null | Bool bool | Tags "string list"

text \<open>The truthiness an \<open>if (v)\<close> tests: an array is an object, and every object is truthy.\<close>

fun truthy :: "jsval \<Rightarrow> bool" where
  "truthy Undefined = False"
| "truthy Null = False"
| "truthy (Bool b) = b"
| "truthy (Tags ts) = True"

fun tagsOf :: "jsval \<Rightarrow> string list" where
  "tagsOf (Tags ts) = ts"
| "tagsOf v = []"

datatype configurationTarget = Global | Workspace | WorkspaceFolder

text \<open>
  What \<open>WorkspaceConfiguration.inspect\<close> returns for a key: its value at each scope,
  \<open>Undefined\<close> where the scope does not set it.
\<close>

record inspection =
  defaultValue :: jsval
  globalValue :: jsval
  workspaceValue :: jsval
  workspaceFolderValue :: jsval

type_synonym configuration = "string \<Rightarrow> inspection"

definition cfg_inspect :: "configuration \<Rightarrow> string \<Rightarrow> inspection" where
  "cfg_inspect cfg key = cfg key"

text \<open>
  \<open>WorkspaceConfiguration.get\<close>: the effective value, the editor's documented order of
  overriding being default, global, workspace, workspace folder.
\<close>

definition cfg_get :: "configuration \<Rightarrow> string \<Rightarrow> jsval" where
  "cfg_get cfg key =
     (let i = cfg key in
      if workspaceFolderValue i \<noteq> Undefined then workspaceFolderValue i
      else if workspaceValue i \<noteq> Undefined then workspaceValue i
      else if globalValue i \<noteq> Undefined then globalValue i
      else defaultValue i)"

definition cfg_update ::
  "string \<Rightarrow> jsval \<Rightarrow> configurationTarget \<Rightarrow> configuration \<Rightarrow> configuration" where
  "cfg_update key v target cfg =
     (case target of
        Global \<Rightarrow> cfg(key := (cfg key)\<lparr>globalValue := v\<rparr>)
      | Workspace \<Rightarrow> cfg(key := (cfg key)\<lparr>workspaceValue := v\<rparr>)
      | WorkspaceFolder \<Rightarrow> cfg(key := (cfg key)\<lparr>workspaceFolderValue := v\<rparr>))"

text \<open>A parsed \<open>Uri\<close>, as far as the extension reads it: \<open>toString()\<close> and \<open>fsPath\<close>.\<close>

record uri =
  toString :: string
  fsPath :: string

datatype payload = PString string | PUri uri

datatype effect =
    ConfigUpdate string jsval configurationTarget
  | ShowInformationMessage string "string list"
  | ShowErrorMessage string
  | SendNotification string payload
  | RegisterYamlSchemaSupport
  | LanguageClientStart

text \<open>
  The closure passed to \<open>onDidDispose\<close> in \<open>reloadSidePreview\<close>, as the three variables it
  captures.
\<close>

record closure =
  c_previewKey :: string
  c_dotFile :: string
  c_uri :: uri

record webviewPanel =
  viewType :: string
  title :: string
  enableScripts :: bool
  html :: string
  onDidDispose :: closure

text \<open>
  The world: the configuration; the regular files of the file system with their contents;
  the module variable \<open>previews\<close>, a dictionary from the document key to a panel, here to
  the panel's reference; the panels that are open in the editor window, by reference (a
  disposed panel has left the store); the next unused reference; the effects so far.
\<close>

record world =
  config :: configuration
  files :: "string \<rightharpoonup> string"
  previews :: "string \<rightharpoonup> nat"
  panels :: "nat \<rightharpoonup> webviewPanel"
  nextPanel :: nat
  effects :: "effect list"

datatype error = TypeError | ENOENT | WebviewDisposed

text \<open>
  A handler returns, or throws after the changes it has made so far; the editor's dispatcher
  catches and logs what a handler throws, so the world goes on from there.
\<close>

datatype outcome = Ok world | Throws error world

fun world_of :: "outcome \<Rightarrow> world" where
  "world_of (Ok w) = w"
| "world_of (Throws e w) = w"

fun thrown :: "outcome \<Rightarrow> error option" where
  "thrown (Ok w) = None"
| "thrown (Throws e w) = Some e"

definition emit :: "effect \<Rightarrow> world \<Rightarrow> world" where
  "emit e w = w\<lparr>effects := effects w @ [e]\<rparr>"

text \<open>
  \<open>workspace.getConfiguration().update(key, v, target)\<close>: the call is an effect, and the
  configuration holds the value from then on. (The editor writes asynchronously; the
  extension never reads a key back after writing it, so the delay cannot be observed.)
\<close>

definition update :: "string \<Rightarrow> jsval \<Rightarrow> configurationTarget \<Rightarrow> world \<Rightarrow> world" where
  "update key v target w =
     emit (ConfigUpdate key v target) (w\<lparr>config := cfg_update key v target (config w)\<rparr>)"

text \<open>The effects added between an earlier world and a later one.\<close>

definition since :: "world \<Rightarrow> world \<Rightarrow> effect list" where
  "since w w' = drop (length (effects w)) (effects w')"

section \<open>The configuration synchronizer\<close>

text \<open>\<open>Array.prototype.indexOf\<close>: the first index of the item, or -1.\<close>

fun indexOf :: "'a list \<Rightarrow> 'a \<Rightarrow> int" where
  "indexOf [] x = - 1"
| "indexOf (y # ys) x =
     (if y = x then 0 else (let i = indexOf ys x in if i < 0 then - 1 else i + 1))"

definition cloudFormationTags :: "string list" where
  "cloudFormationTags =
     [''!And'', ''!And sequence'', ''!If'', ''!If sequence'', ''!Not'', ''!Not sequence'',
      ''!Equals'', ''!Equals sequence'', ''!Or'', ''!Or sequence'', ''!FindInMap'',
      ''!FindInMap sequence'', ''!Base64'', ''!Join'', ''!Join sequence'', ''!Cidr'', ''!Ref'',
      ''!Sub'', ''!Sub sequence'', ''!GetAtt'', ''!GetAZs'', ''!ImportValue'',
      ''!ImportValue sequence'', ''!Select'', ''!Select sequence'', ''!Split'',
      ''!Split sequence'']"

text \<open>
  Line 87 of extension.ts:
  \<open>currentTags.concat(cloudFormationTags.filter((item) => currentTags.indexOf(item) < 0))\<close>.
\<close>

definition updateTags :: "string list \<Rightarrow> string list" where
  "updateTags currentTags =
     currentTags @ filter (\<lambda>item. indexOf currentTags item < 0) cloudFormationTags"

definition validationPrompt :: string where
  "validationPrompt = ''The installed Red Hat YAML extension is also configured to validate YAML templates. This may result in duplicate lint errors with cfn-lint. Disabling the YAML extensions validation will disable it completely.  Would you like to only use cfn-lint to lint CloudFormation templates?''"

text \<open>
  \<open>yamlLangaugeServerValidation\<close> (the name is the source's). \<open>selection\<close> is what the
  awaited \<open>showInformationMessage\<close> resolves to: the item chosen, or \<open>None\<close> for
  \<open>undefined\<close> when the user dismisses the message. The three reads come first, as in the
  source; the pair carries the local variable \<open>cfnValidateYaml\<close> out of the inner block.
\<close>

definition yamlLangaugeServerValidation :: "string option \<Rightarrow> world \<Rightarrow> world" where
  "yamlLangaugeServerValidation selection w =
     (let validateYaml = cfg_get (config w) ''yaml.validate'';
          cfnValidateYamlInspect = cfg_inspect (config w) ''cfnLint.validateUsingJsonSchema'';
          cfnValidateYaml = cfg_get (config w) ''cfnLint.validateUsingJsonSchema''
      in
      if truthy validateYaml then
        (let (w1, cfnValidateYaml1) =
           (if globalValue cfnValidateYamlInspect = Null
               \<or> workspaceFolderValue cfnValidateYamlInspect = Null
               \<or> workspaceValue cfnValidateYamlInspect = Null
            then
              (let w0 = emit (ShowInformationMessage validationPrompt [''yes'', ''no'']) w in
               if selection = Some ''yes'' then
                 (update ''cfnLint.validateUsingJsonSchema'' (Bool False) Global w0,
                  cfnValidateYaml)
               else if selection = Some ''no'' then
                 (update ''cfnLint.validateUsingJsonSchema'' (Bool True) Global w0, Bool True)
               else (w0, cfnValidateYaml))
            else (w, cfnValidateYaml))
         in
         if cfnValidateYaml1 = Bool False
         then update ''yaml.validate'' (Bool False) Global w1
         else w1)
      else w)"

text \<open>
  \<open>activate\<close>. \<open>yaml.customTags\<close> is declared \<open>Array<string>\<close>; when the key holds no
  array the call of \<open>concat\<close> on it throws a TypeError. \<open>yamlLangaugeServerValidation\<close>
  is asynchronous and is not awaited: what it does after its prompt runs later than the
  rest of \<open>activate\<close>; the model lists its effects before those of the calls that follow
  it, which touch neither the configuration nor the prompt. \<open>registerYamlSchemaSupport\<close>
  (yaml-support/yaml-schema) and the start of the language client stand as their calls.
\<close>

definition activate :: "string option \<Rightarrow> world \<Rightarrow> outcome" where
  "activate selection w =
     (let enableAutocomplete = cfg_get (config w) ''cfnLint.enableAutocomplete'' in
      if truthy enableAutocomplete then
        (case cfg_get (config w) ''yaml.customTags'' of
           Tags currentTags \<Rightarrow>
             Ok (emit LanguageClientStart
                  (emit RegisterYamlSchemaSupport
                    (yamlLangaugeServerValidation selection
                      (update ''yaml.customTags'' (Tags (updateTags currentTags)) Global w))))
         | _ \<Rightarrow> Throws TypeError w)
      else Ok (emit LanguageClientStart w))"

section \<open>The preview panels\<close>

text \<open>
  \<open>Uri.parse\<close> and \<open>Uri.file\<close> belong to the editor, not to the extension: the handlers
  take them as a parameter, and every theorem holds whatever they compute.
\<close>

record uriApi =
  uri_parse :: "string \<Rightarrow> uri"
  uri_file :: "string \<Rightarrow> uri"

text \<open>\<open>String.prototype.slice(0, end)\<close>: a negative end counts from the end of the string.\<close>

definition slice0 :: "string \<Rightarrow> int \<Rightarrow> string" where
  "slice0 s e =
     (let n = int (length s);
          k = (if e < 0 then max (n + e) 0 else min e n)
      in take (nat k) s)"

definition previewErrorMessage :: string where
  "previewErrorMessage =
     ''Error previewing graph. Please run `pip3 install cfn-lint pydot --upgrade`''"

definition tabs :: "nat \<Rightarrow> string" where
  "tabs n = replicate n (CHR 0x09)"

definition nl :: string where
  "nl = [CHR 0x0A]"

text \<open>
  \<open>getPreviewContent\<close>: the template literal, line by line, with the content between two
  backticks where the source interpolates \<open>multilineString\<close>. Nothing is escaped.
\<close>

definition getPreviewContent :: "string \<Rightarrow> string" where
  \<open>getPreviewContent content =
     (let multilineString = ''`'' @ content @ ''`'' in
      nl
      @ tabs 1 @ ''<!DOCTYPE html>'' @ nl
      @ tabs 1 @ ''<body>'' @ nl
      @ tabs 2 @ ''<script src="https://unpkg.com/d3@5.16.0/dist/d3.min.js"></script>'' @ nl
      @ tabs 2 @ ''<script src="https://unpkg.com/@hpcc-js/wasm@0.3.11/dist/index.min.js"></script>'' @ nl
      @ tabs 2 @ ''<script src="https://unpkg.com/d3-graphviz@3.0.5/build/d3-graphviz.min.js"></script>'' @ nl
      @ tabs 2 @ ''<div id="graph" style="text-align: center;"></div>'' @ nl
      @ tabs 2 @ ''<script>'' @ nl
      @ tabs 3 @ ''d3.select("#graph")'' @ nl
      @ tabs 3 @ ''.graphviz()'' @ nl
      @ tabs 3 @ ''.renderDot('' @ multilineString @ '');'' @ nl
      @ tabs 2 @ ''</script>'' @ nl
      @ tabs 1 @ ''</body>'' @ nl)\<close>

text \<open>
  The listener registered with \<open>onDidDispose\<close> (lines 143 to 148): it deletes the entry of
  \<open>previews\<close>, unlinks the artifact and notifies the server. \<open>fs.unlinkSync\<close> throws
  ENOENT when the file does not exist, and the line after it is then not reached.
\<close>

definition previewDisposed :: "closure \<Rightarrow> world \<Rightarrow> outcome" where
  "previewDisposed c w =
     (let w1 = w\<lparr>previews := (previews w)(c_previewKey c := None)\<rparr> in
      case files w1 (c_dotFile c) of
        None \<Rightarrow> Throws ENOENT w1
      | Some content \<Rightarrow>
          Ok (emit (SendNotification ''cfn/previewClosed'' (PUri (c_uri c)))
               (w1\<lparr>files := (files w1)(c_dotFile c := None)\<rparr>)))"

text \<open>
  The editor's part of a disposal, by the user closing the panel or by \<open>panel.dispose()\<close>:
  a panel that is open leaves the window and its listener runs; a panel disposed before
  has nothing left to run.
\<close>

definition dispose :: "nat \<Rightarrow> world \<Rightarrow> outcome" where
  "dispose h w =
     (case panels w h of
        None \<Rightarrow> Ok w
      | Some p \<Rightarrow> previewDisposed (onDidDispose p) (w\<lparr>panels := (panels w)(h := None)\<rparr>))"

text \<open>
  \<open>reloadSidePreview\<close>. \<open>fs.existsSync\<close> and \<open>fs.readFileSync\<close> read the files of the
  world. \<open>createWebviewPanel\<close> returns a panel under a fresh reference. Writing the
  \<open>html\<close> of a panel that was disposed throws in the editor; reading a property of
  \<open>undefined\<close> is a TypeError.
\<close>

definition reloadSidePreview :: "uriApi \<Rightarrow> string \<Rightarrow> world \<Rightarrow> outcome" where
  "reloadSidePreview api f w =
     (let uri = uri_parse api f;
          previewKey = toString uri;
          dotFile = fsPath uri @ ''.dot''
      in
      case files w dotFile of
        None \<Rightarrow> Ok (emit (ShowErrorMessage previewErrorMessage) w)
      | Some content \<Rightarrow>
          (let w1 =
             (case previews w previewKey of
                None \<Rightarrow>
                  w\<lparr>previews := (previews w)(previewKey \<mapsto> nextPanel w),
                    panels := (panels w)(nextPanel w \<mapsto>
                      \<lparr>viewType = ''cfnLintPreview'',
                       title = ''Template: '' @ slice0 dotFile (- 4),
                       enableScripts = True,
                       html = [],
                       onDidDispose =
                         \<lparr>c_previewKey = previewKey, c_dotFile = dotFile, c_uri = uri\<rparr>\<rparr>),
                    nextPanel := Suc (nextPanel w)\<rparr>
              | Some h \<Rightarrow> w)
           in
           case previews w1 previewKey of
             None \<Rightarrow> Throws TypeError w1
           | Some h \<Rightarrow>
               (case panels w1 h of
                  None \<Rightarrow> Throws WebviewDisposed w1
                | Some p \<Rightarrow>
                    Ok (w1\<lparr>panels := (panels w1)(h \<mapsto> p\<lparr>html := getPreviewContent content\<rparr>)\<rparr>))))"

text \<open>
  The handler of \<open>cfn/fileclosed\<close> (line 106): \<open>previews[uri].dispose()\<close>, on the string
  the server sent, with no test that the entry exists.
\<close>

definition fileclosed :: "string \<Rightarrow> world \<Rightarrow> outcome" where
  "fileclosed u w =
     (case previews w u of
        None \<Rightarrow> Throws TypeError w
      | Some h \<Rightarrow> dispose h w)"

text \<open>
  The command \<open>extension.sidePreview\<close> (lines 109 to 113); \<open>activeTextEditor\<close> is the file
  name of the active editor's document, \<open>None\<close> when no editor is active.
\<close>

definition sidePreview :: "uriApi \<Rightarrow> string option \<Rightarrow> world \<Rightarrow> outcome" where
  "sidePreview api activeTextEditor w =
     (case activeTextEditor of
        None \<Rightarrow> Throws TypeError w
      | Some fileName \<Rightarrow>
          Ok (emit (SendNotification ''cfn/requestPreview''
                     (PString (toString (uri_file api fileName)))) w))"

text \<open>
  What can happen after activation: the user runs the command; the server sends one of its
  two notifications; the user closes a panel of the window; and, outside the extension, a
  file is written (the server writes the artifact) or removed.
\<close>

datatype event =
    RequestPreview "string option"
  | PreviewIsAvailable string
  | FileClosed string
  | PanelClosed nat
  | FileWritten string string
  | FileRemoved string

fun step :: "uriApi \<Rightarrow> event \<Rightarrow> world \<Rightarrow> outcome" where
  "step api (RequestPreview ed) w = sidePreview api ed w"
| "step api (PreviewIsAvailable u) w = reloadSidePreview api u w"
| "step api (FileClosed u) w = fileclosed u w"
| "step api (PanelClosed h) w = dispose h w"
| "step api (FileWritten path content) w = Ok (w\<lparr>files := (files w)(path \<mapsto> content)\<rparr>)"
| "step api (FileRemoved path) w = Ok (w\<lparr>files := (files w)(path := None)\<rparr>)"

fun run :: "uriApi \<Rightarrow> event list \<Rightarrow> world \<Rightarrow> world" where
  "run api [] w = w"
| "run api (ev # evs) w = run api evs (world_of (step api ev w))"

text \<open>The world at activation: no preview yet, no panel, any configuration and files.\<close>

definition initial :: "configuration \<Rightarrow> (string \<rightharpoonup> string) \<Rightarrow> world" where
  "initial cfg fs =
     \<lparr>config = cfg, files = fs, previews = Map.empty, panels = Map.empty, nextPanel = 0,
      effects = []\<rparr>"

text \<open>The panels open in the window that were created for a document key.\<close>

definition panelsFor :: "world \<Rightarrow> string \<Rightarrow> nat set" where
  "panelsFor w k = {h. \<exists>p. panels w h = Some p \<and> c_previewKey (onDidDispose p) = k}"

section \<open>Observations on the effects\<close>

fun isPrompt :: "effect \<Rightarrow> bool" where
  "isPrompt (ShowInformationMessage m items) = True"
| "isPrompt e = False"

fun isConfigUpdate :: "effect \<Rightarrow> bool" where
  "isConfigUpdate (ConfigUpdate k v t) = True"
| "isConfigUpdate e = False"

fun isUpdateOf :: "string \<Rightarrow> effect \<Rightarrow> bool" where
  "isUpdateOf key (ConfigUpdate k v t) = (k = key)"
| "isUpdateOf key e = False"

text \<open>Whether a run of the validator routine from a world showed its prompt.\<close>

definition prompted :: "string option \<Rightarrow> world \<Rightarrow> bool" where
  "prompted selection w =
     (filter isPrompt (since w (yamlLangaugeServerValidation selection w)) \<noteq> [])"

text \<open>
  The condition of the specification for the prompt, in its words: the toggle is unset at
  every scope. A scope counts as unset when it gives no value, or \<open>null\<close>.
\<close>

definition unset :: "jsval \<Rightarrow> bool" where
  "unset v = (v = Undefined \<or> v = Null)"

definition unsetAtEveryScope :: "inspection \<Rightarrow> bool" where
  "unsetAtEveryScope i =
     (unset (globalValue i) \<and> unset (workspaceValue i) \<and> unset (workspaceFolderValue i))"

section \<open>Example worlds\<close>

definition noValue :: inspection where
  "noValue =
     \<lparr>defaultValue = Undefined, globalValue = Undefined, workspaceValue = Undefined,
      workspaceFolderValue = Undefined\<rparr>"

definition globally :: "jsval \<Rightarrow> inspection" where
  "globally v = noValue\<lparr>globalValue := v\<rparr>"

text \<open>Autocomplete is on and the user's tag list names one tag twice.\<close>

definition duplicateTagsWorld :: world where
  "duplicateTagsWorld =
     initial ((\<lambda>k. noValue)
        (''cfnLint.enableAutocomplete'' := globally (Bool True),
         ''yaml.customTags'' := globally (Tags [''!Ref'', ''!Ref''])))
       Map.empty"

text \<open>Autocomplete is on, the user has one tag of their own and one of the fixed ones.\<close>

definition someTagsWorld :: world where
  "someTagsWorld =
     initial ((\<lambda>k. noValue)
        (''cfnLint.enableAutocomplete'' := globally (Bool True),
         ''yaml.customTags'' := globally (Tags [''!Mine'', ''!Sub''])))
       Map.empty"

text \<open>Autocomplete is off; the YAML validator is on and the toggle is \<open>null\<close>.\<close>

definition autocompleteOffWorld :: world where
  "autocompleteOffWorld =
     initial ((\<lambda>k. noValue)
        (''cfnLint.enableAutocomplete'' := globally (Bool False),
         ''yaml.customTags'' := globally (Tags [''!Mine'']),
         ''yaml.validate'' := globally (Bool True),
         ''cfnLint.validateUsingJsonSchema'' := globally Null))
       Map.empty"

text \<open>
  The YAML validator is on; the toggle is \<open>null\<close> in the user settings and set in the
  workspace, to \<open>true\<close> in the first world and to \<open>false\<close> in the second.
\<close>

definition workspaceTrueWorld :: world where
  "workspaceTrueWorld =
     initial ((\<lambda>k. noValue)
        (''yaml.validate'' := globally (Bool True),
         ''cfnLint.validateUsingJsonSchema'' := (globally Null)\<lparr>workspaceValue := Bool True\<rparr>))
       Map.empty"

definition workspaceFalseWorld :: world where
  "workspaceFalseWorld =
     initial ((\<lambda>k. noValue)
        (''yaml.validate'' := globally (Bool True),
         ''cfnLint.validateUsingJsonSchema'' := (globally Null)\<lparr>workspaceValue := Bool False\<rparr>))
       Map.empty"

text \<open>The YAML validator is on and no scope gives the toggle a value.\<close>

definition toggleAbsentWorld :: world where
  "toggleAbsentWorld =
     initial ((\<lambda>k. noValue)(''yaml.validate'' := globally (Bool True))) Map.empty"

text \<open>The YAML validator is on and the toggle is \<open>null\<close> in the user settings only.\<close>

definition toggleNullWorld :: world where
  "toggleNullWorld =
     initial ((\<lambda>k. noValue)
        (''yaml.validate'' := globally (Bool True),
         ''cfnLint.validateUsingJsonSchema'' := globally Null))
       Map.empty"

section \<open>The registry and the window\<close>

text \<open>
  The registry and the window agree: an entry of \<open>previews\<close> refers to a panel that is
  open and was created for the entry's key; every open panel is the entry of its own key;
  and the references in use lie below the next one.
\<close>

definition consistent :: "world \<Rightarrow> bool" where
  "consistent w \<longleftrightarrow>
     (\<forall>k h. previews w k = Some h \<longrightarrow>
        (\<exists>p. panels w h = Some p \<and> c_previewKey (onDidDispose p) = k))
     \<and> (\<forall>h p. panels w h = Some p \<longrightarrow> previews w (c_previewKey (onDidDispose p)) = Some h)
     \<and> (\<forall>h p. panels w h = Some p \<longrightarrow> h < nextPanel w)"

text \<open>The notifications of one method among a list of effects.\<close>

fun isNotification :: "string \<Rightarrow> effect \<Rightarrow> bool" where
  "isNotification m (SendNotification m' x) = (m' = m)"
| "isNotification m e = False"

text \<open>
  An editor for the examples: a document key is \<open>file://\<close> followed by the path of the
  file.
\<close>

definition exampleApi :: uriApi where
  "exampleApi =
     \<lparr>uri_parse = (\<lambda>s. \<lparr>toString = s, fsPath = drop 7 s\<rparr>),
      uri_file = (\<lambda>p. \<lparr>toString = ''file://'' @ p, fsPath = p\<rparr>)\<rparr>"

definition emptyWorld :: world where
  "emptyWorld = initial (\<lambda>k. noValue) Map.empty"

text \<open>The server has written the artifact of \<open>/A.yaml\<close>; no preview is open.\<close>

definition artifactWorld :: world where
  "artifactWorld = run exampleApi [FileWritten ''/A.yaml.dot'' ''digraph {}''] emptyWorld"

text \<open>The preview of \<open>/A.yaml\<close> is open, and the server has written a new artifact.\<close>

definition previewOpenWorld :: world where
  "previewOpenWorld =
     run exampleApi
       [RequestPreview (Some ''/A.yaml''),
        FileWritten ''/A.yaml.dot'' ''digraph {}'',
        PreviewIsAvailable ''file:///A.yaml'',
        FileWritten ''/A.yaml.dot'' ''digraph { a -> b }'']
       emptyWorld"

text \<open>The preview of \<open>/A.yaml\<close> is open, and the artifact has been removed from the disk.\<close>

definition artifactGoneWorld :: world where
  "artifactGoneWorld =
     run exampleApi
       [FileWritten ''/A.yaml.dot'' ''digraph {}'',
        PreviewIsAvailable ''file:///A.yaml'',
        FileRemoved ''/A.yaml.dot'']
       emptyWorld"

text \<open>
  The scenario of the specification: the preview of \<open>/A.yaml\<close> was opened and the user
  has closed its panel.
\<close>

definition previewClosedWorld :: world where
  "previewClosedWorld =
     run exampleApi
       [RequestPreview (Some ''/A.yaml''),
        FileWritten ''/A.yaml.dot'' ''digraph {}'',
        PreviewIsAvailable ''file:///A.yaml'',
        PanelClosed 0]
       emptyWorld"

section \<open>The tag merge\<close>

lemma indexOf_negative: "indexOf xs x < 0 \<longleftrightarrow> x \<notin> set xs"
  by (induction xs) (auto simp: Let_def)

lemma updateTags_append:
  "updateTags xs = xs @ filter (\<lambda>t. t \<notin> set xs) cloudFormationTags"
  by (simp add: updateTags_def indexOf_negative)

lemma distinct_cloudFormationTags: "distinct cloudFormationTags"
  by (simp add: cloudFormationTags_def)

lemma set_updateTags: "set (updateTags xs) = set xs \<union> set cloudFormationTags"
  by (auto simp: updateTags_append)

lemma distinct_updateTags: "distinct (updateTags xs) \<longleftrightarrow> distinct xs"
  by (auto simp: updateTags_append distinct_cloudFormationTags)

text \<open>
  C7. The merge is idempotent: merging the fixed tags into a list that already went
  through the merge gives that list again, whatever the first list was.
\<close>

theorem updateTags_idempotent: "updateTags (updateTags xs) = updateTags xs"
proof -
  have "filter (\<lambda>t. t \<notin> set (updateTags xs)) cloudFormationTags = []"
    by (simp add: filter_empty_conv set_updateTags)
  then show ?thesis
    using updateTags_append [of "updateTags xs"] by simp
qed

section \<open>Effects of the configuration synchronizer\<close>

lemma effects_emit: "effects (emit e w) = effects w @ [e]"
  by (simp add: emit_def)

lemma effects_update: "effects (update k v t w) = effects w @ [ConfigUpdate k v t]"
  by (simp add: update_def emit_def)

lemma config_emit: "config (emit e w) = config w"
  by (simp add: emit_def)

lemma config_update_other: "k' \<noteq> k \<Longrightarrow> config (update k v t w) k' = config w k'"
  by (simp add: update_def emit_def cfg_update_def split: configurationTarget.split)

lemma config_update_global: "globalValue (config (update k v Global w) k) = v"
  by (simp add: update_def emit_def cfg_update_def)

lemma cfg_get_update_other:
  "k' \<noteq> k \<Longrightarrow> cfg_get (config (update k v t w)) k' = cfg_get (config w) k'"
  by (simp add: cfg_get_def config_update_other)

lemma since_append: "effects w' = effects w @ es \<Longrightarrow> since w w' = es"
  by (simp add: since_def)

text \<open>The whole trace of the validator routine, read off its branches.\<close>

lemma validation_effects:
  "effects (yamlLangaugeServerValidation selection w) =
     effects w
     @ (if truthy (cfg_get (config w) ''yaml.validate'')
           \<and> (globalValue (config w ''cfnLint.validateUsingJsonSchema'') = Null
              \<or> workspaceFolderValue (config w ''cfnLint.validateUsingJsonSchema'') = Null
              \<or> workspaceValue (config w ''cfnLint.validateUsingJsonSchema'') = Null)
        then ShowInformationMessage validationPrompt [''yes'', ''no'']
             # (if selection = Some ''yes''
                then [ConfigUpdate ''cfnLint.validateUsingJsonSchema'' (Bool False) Global]
                else if selection = Some ''no''
                then [ConfigUpdate ''cfnLint.validateUsingJsonSchema'' (Bool True) Global]
                else [])
        else [])
     @ (if truthy (cfg_get (config w) ''yaml.validate'')
           \<and> (if (globalValue (config w ''cfnLint.validateUsingJsonSchema'') = Null
                  \<or> workspaceFolderValue (config w ''cfnLint.validateUsingJsonSchema'') = Null
                  \<or> workspaceValue (config w ''cfnLint.validateUsingJsonSchema'') = Null)
                  \<and> selection = Some ''no''
               then False
               else cfg_get (config w) ''cfnLint.validateUsingJsonSchema'' = Bool False)
        then [ConfigUpdate ''yaml.validate'' (Bool False) Global]
        else [])"
  by (simp add: yamlLangaugeServerValidation_def cfg_inspect_def effects_emit effects_update
      Let_def)

lemma validation_config_other:
  "k \<noteq> ''cfnLint.validateUsingJsonSchema'' \<Longrightarrow> k \<noteq> ''yaml.validate'' \<Longrightarrow>
   config (yamlLangaugeServerValidation selection w) k = config w k"
  by (simp add: yamlLangaugeServerValidation_def cfg_inspect_def config_emit
      config_update_other Let_def)

lemma prompted_iff:
  "prompted selection w \<longleftrightarrow>
     truthy (cfg_get (config w) ''yaml.validate'')
     \<and> (globalValue (config w ''cfnLint.validateUsingJsonSchema'') = Null
        \<or> workspaceFolderValue (config w ''cfnLint.validateUsingJsonSchema'') = Null
        \<or> workspaceValue (config w ''cfnLint.validateUsingJsonSchema'') = Null)"
  by (simp add: prompted_def since_append [OF validation_effects])

text \<open>
  C8, as the code has it. The routine shows its prompt exactly when \<open>yaml.validate\<close> is
  truthy and the toggle \<open>cfnLint.validateUsingJsonSchema\<close> is \<open>null\<close> at one or more of
  the three scopes; it then shows it once, with the two items yes and no; and it writes
  the toggle only after a prompt that was answered, at global scope: \<open>false\<close> for yes,
  \<open>true\<close> for no.
\<close>

theorem validation_prompts_when_toggle_null_somewhere:
  "(prompted selection w \<longleftrightarrow>
      truthy (cfg_get (config w) ''yaml.validate'')
      \<and> (globalValue (cfg_inspect (config w) ''cfnLint.validateUsingJsonSchema'') = Null
         \<or> workspaceValue (cfg_inspect (config w) ''cfnLint.validateUsingJsonSchema'') = Null
         \<or> workspaceFolderValue (cfg_inspect (config w) ''cfnLint.validateUsingJsonSchema'')
             = Null))
   \<and> filter isPrompt (since w (yamlLangaugeServerValidation selection w)) =
       (if prompted selection w
        then [ShowInformationMessage validationPrompt [''yes'', ''no'']] else [])
   \<and> filter (isUpdateOf ''cfnLint.validateUsingJsonSchema'')
         (since w (yamlLangaugeServerValidation selection w)) =
       (if prompted selection w \<and> selection = Some ''yes''
        then [ConfigUpdate ''cfnLint.validateUsingJsonSchema'' (Bool False) Global]
        else if prompted selection w \<and> selection = Some ''no''
        then [ConfigUpdate ''cfnLint.validateUsingJsonSchema'' (Bool True) Global]
        else [])"
  unfolding prompted_iff cfg_inspect_def
  by (auto simp add: since_append [OF validation_effects])

text \<open>
  The claim C8 as written fails in \<open>workspaceTrueWorld\<close>: the workspace sets the
  toggle, so it is not unset at every scope, and the routine prompts all the same, because
  the user settings hold \<open>null\<close> and line 181 joins its three tests with \<open>||\<close>.
\<close>

theorem validation_prompt_not_unset_everywhere:
  "\<not> (prompted None workspaceTrueWorld \<longleftrightarrow>
        truthy (cfg_get (config workspaceTrueWorld) ''yaml.validate'')
        \<and> unsetAtEveryScope
            (cfg_inspect (config workspaceTrueWorld) ''cfnLint.validateUsingJsonSchema''))"
  unfolding prompted_iff
  by (simp add: workspaceTrueWorld_def initial_def cfg_get_def cfg_inspect_def
      unsetAtEveryScope_def unset_def globally_def noValue_def)

text \<open>
  In the other direction: when no scope gives the toggle a value, \<open>inspect\<close> returns
  \<open>undefined\<close> three times, none of them is \<open>=== null\<close>, and the routine does not
  prompt.
\<close>

lemma validation_no_prompt_when_toggle_absent:
  "unsetAtEveryScope (cfg_inspect (config toggleAbsentWorld) ''cfnLint.validateUsingJsonSchema'')
   \<and> truthy (cfg_get (config toggleAbsentWorld) ''yaml.validate'')
   \<and> \<not> prompted None toggleAbsentWorld"
  unfolding prompted_iff
  by (simp add: toggleAbsentWorld_def initial_def cfg_get_def cfg_inspect_def
      unsetAtEveryScope_def unset_def globally_def noValue_def)

text \<open>
  C9, as the code has it. When the prompt was shown and dismissed, the toggle is not
  written; \<open>yaml.validate\<close> is written, \<open>false\<close> at global scope, exactly when the effective
  value of the toggle read at the start is \<open>false\<close>; nothing else is written.
\<close>

theorem dismissed_prompt_writes:
  assumes "prompted None w"
  shows "filter (isUpdateOf ''cfnLint.validateUsingJsonSchema'')
           (since w (yamlLangaugeServerValidation None w)) = []
         \<and> filter isConfigUpdate (since w (yamlLangaugeServerValidation None w)) =
             (if cfg_get (config w) ''cfnLint.validateUsingJsonSchema'' = Bool False
              then [ConfigUpdate ''yaml.validate'' (Bool False) Global] else [])"
  using assms unfolding prompted_iff
  by (simp add: since_append [OF validation_effects])

theorem dismissed_prompt_writes_witness:
  "prompted None toggleNullWorld
   \<and> filter isConfigUpdate
       (since toggleNullWorld (yamlLangaugeServerValidation None toggleNullWorld)) = []"
proof -
  have p: "prompted None toggleNullWorld"
    unfolding prompted_iff
    by (simp add: toggleNullWorld_def initial_def cfg_get_def globally_def noValue_def)
  have "cfg_get (config toggleNullWorld) ''cfnLint.validateUsingJsonSchema'' = Null"
    by (simp add: toggleNullWorld_def initial_def cfg_get_def globally_def noValue_def)
  with p dismissed_prompt_writes [OF p] show ?thesis by simp
qed

text \<open>
  The claim C9 as written fails in \<open>workspaceFalseWorld\<close>: the prompt is shown because the
  user settings hold \<open>null\<close>, the workspace sets the toggle to \<open>false\<close>, and after the
  dismissal line 193 finds \<open>cfnValidateYaml === false\<close> and writes \<open>yaml.validate\<close>.
\<close>

theorem dismissed_prompt_still_writes_yaml_validate:
  "prompted None workspaceFalseWorld
   \<and> filter isConfigUpdate
       (since workspaceFalseWorld (yamlLangaugeServerValidation None workspaceFalseWorld)) =
       [ConfigUpdate ''yaml.validate'' (Bool False) Global]
   \<and> globalValue (config workspaceFalseWorld ''yaml.validate'') = Bool True
   \<and> globalValue
        (config (yamlLangaugeServerValidation None workspaceFalseWorld) ''yaml.validate'') =
       Bool False"
proof -
  have p: "prompted None workspaceFalseWorld"
    unfolding prompted_iff
    by (simp add: workspaceFalseWorld_def initial_def cfg_get_def globally_def noValue_def)
  have g: "cfg_get (config workspaceFalseWorld) ''cfnLint.validateUsingJsonSchema'' = Bool False"
    by (simp add: workspaceFalseWorld_def initial_def cfg_get_def globally_def noValue_def)
  have e: "filter isConfigUpdate
       (since workspaceFalseWorld (yamlLangaugeServerValidation None workspaceFalseWorld)) =
       [ConfigUpdate ''yaml.validate'' (Bool False) Global]"
    using p g unfolding prompted_iff by (simp add: since_append [OF validation_effects])
  have b: "globalValue (config workspaceFalseWorld ''yaml.validate'') = Bool True"
    by (simp add: workspaceFalseWorld_def initial_def globally_def noValue_def)
  have a: "globalValue
        (config (yamlLangaugeServerValidation None workspaceFalseWorld) ''yaml.validate'') =
       Bool False"
    using p g unfolding prompted_iff
    by (simp add: yamlLangaugeServerValidation_def cfg_inspect_def Let_def
        config_update_global config_emit cfg_get_def emit_def)
  from p e b a show ?thesis by simp
qed

section \<open>Activation\<close>

lemma activate_autocomplete:
  assumes "truthy (cfg_get (config w) ''cfnLint.enableAutocomplete'')"
    and "cfg_get (config w) ''yaml.customTags'' = Tags currentTags"
  shows "activate selection w =
     Ok (emit LanguageClientStart
          (emit RegisterYamlSchemaSupport
            (yamlLangaugeServerValidation selection
              (update ''yaml.customTags'' (Tags (updateTags currentTags)) Global w))))"
  using assms by (simp add: activate_def)

lemma validation_effects_tags:
  "filter (isUpdateOf ''yaml.customTags'') (effects (yamlLangaugeServerValidation selection w))
   = filter (isUpdateOf ''yaml.customTags'') (effects w)"
  by (simp add: validation_effects)

text \<open>
  C6, as the code has it. When \<open>cfnLint.enableAutocomplete\<close> is truthy and
  \<open>yaml.customTags\<close> holds a list, activation writes \<open>yaml.customTags\<close> once, at global
  scope. The list written is the existing list as it is, followed by the fixed tags that
  are not in it, in their declaration order; as a set it is the union of the two; the
  entries added are distinct and none of them is an existing entry; and the list has no
  entry twice exactly when the existing list has none.
\<close>

theorem activate_writes_merged_tags:
  assumes "truthy (cfg_get (config w) ''cfnLint.enableAutocomplete'')"
    and "cfg_get (config w) ''yaml.customTags'' = Tags currentTags"
  shows "filter (isUpdateOf ''yaml.customTags'') (since w (world_of (activate selection w))) =
           [ConfigUpdate ''yaml.customTags'' (Tags (updateTags currentTags)) Global]
         \<and> globalValue (config (world_of (activate selection w)) ''yaml.customTags'') =
             Tags (updateTags currentTags)
         \<and> updateTags currentTags =
             currentTags @ filter (\<lambda>t. t \<notin> set currentTags) cloudFormationTags
         \<and> set (updateTags currentTags) = set currentTags \<union> set cloudFormationTags
         \<and> distinct (filter (\<lambda>t. t \<notin> set currentTags) cloudFormationTags)
         \<and> (distinct (updateTags currentTags) \<longleftrightarrow> distinct currentTags)"
proof -
  let ?u = "update ''yaml.customTags'' (Tags (updateTags currentTags)) Global w"
  let ?w' = "world_of (activate selection w)"
  have w': "?w' = emit LanguageClientStart (emit RegisterYamlSchemaSupport
      (yamlLangaugeServerValidation selection ?u))"
    by (simp add: activate_autocomplete [OF assms])
  obtain es where es: "effects (yamlLangaugeServerValidation selection ?u) = effects ?u @ es"
    using validation_effects [of selection ?u] by blast
  have "filter (isUpdateOf ''yaml.customTags'') (effects ?u @ es)
        = filter (isUpdateOf ''yaml.customTags'') (effects ?u)"
    using validation_effects_tags [of selection ?u] es by simp
  then have none: "filter (isUpdateOf ''yaml.customTags'') es = []"
    by simp
  have "effects ?w' = effects w
      @ (ConfigUpdate ''yaml.customTags'' (Tags (updateTags currentTags)) Global # es
         @ [RegisterYamlSchemaSupport, LanguageClientStart])"
    by (simp add: w' effects_emit es effects_update)
  then have "since w ?w' = ConfigUpdate ''yaml.customTags'' (Tags (updateTags currentTags)) Global
      # es @ [RegisterYamlSchemaSupport, LanguageClientStart]"
    by (rule since_append)
  then have 1: "filter (isUpdateOf ''yaml.customTags'') (since w ?w') =
      [ConfigUpdate ''yaml.customTags'' (Tags (updateTags currentTags)) Global]"
    by (simp add: none)
  have 2: "globalValue (config ?w' ''yaml.customTags'') = Tags (updateTags currentTags)"
    by (simp add: w' config_emit validation_config_other config_update_global)
  have 5: "distinct (filter (\<lambda>t. t \<notin> set currentTags) cloudFormationTags)"
    by (simp add: distinct_cloudFormationTags)
  from 1 2 5 updateTags_append [of currentTags] set_updateTags [of currentTags]
    distinct_updateTags [of currentTags]
  show ?thesis by blast
qed

theorem activate_writes_merged_tags_witness:
  "truthy (cfg_get (config someTagsWorld) ''cfnLint.enableAutocomplete'')
   \<and> cfg_get (config someTagsWorld) ''yaml.customTags'' = Tags [''!Mine'', ''!Sub'']
   \<and> filter (isUpdateOf ''yaml.customTags'')
        (since someTagsWorld (world_of (activate None someTagsWorld))) =
       [ConfigUpdate ''yaml.customTags'' (Tags (updateTags [''!Mine'', ''!Sub''])) Global]
   \<and> updateTags [''!Mine'', ''!Sub''] =
       [''!Mine'', ''!Sub'', ''!And'', ''!And sequence'', ''!If'', ''!If sequence'', ''!Not'',
        ''!Not sequence'', ''!Equals'', ''!Equals sequence'', ''!Or'', ''!Or sequence'',
        ''!FindInMap'', ''!FindInMap sequence'', ''!Base64'', ''!Join'', ''!Join sequence'',
        ''!Cidr'', ''!Ref'', ''!Sub sequence'', ''!GetAtt'', ''!GetAZs'', ''!ImportValue'',
        ''!ImportValue sequence'', ''!Select'', ''!Select sequence'', ''!Split'',
        ''!Split sequence'']
   \<and> distinct (updateTags [''!Mine'', ''!Sub''])"
proof -
  have a: "truthy (cfg_get (config someTagsWorld) ''cfnLint.enableAutocomplete'')"
    by (simp add: someTagsWorld_def initial_def cfg_get_def globally_def noValue_def)
  have b: "cfg_get (config someTagsWorld) ''yaml.customTags'' = Tags [''!Mine'', ''!Sub'']"
    by (simp add: someTagsWorld_def initial_def cfg_get_def globally_def noValue_def)
  have c: "filter (\<lambda>t. t \<notin> set [''!Mine'', ''!Sub'']) cloudFormationTags =
       [''!And'', ''!And sequence'', ''!If'', ''!If sequence'', ''!Not'',
        ''!Not sequence'', ''!Equals'', ''!Equals sequence'', ''!Or'', ''!Or sequence'',
        ''!FindInMap'', ''!FindInMap sequence'', ''!Base64'', ''!Join'', ''!Join sequence'',
        ''!Cidr'', ''!Ref'', ''!Sub sequence'', ''!GetAtt'', ''!GetAZs'', ''!ImportValue'',
        ''!ImportValue sequence'', ''!Select'', ''!Select sequence'', ''!Split'',
        ''!Split sequence'']"
    by (simp add: cloudFormationTags_def)
  have d: "distinct [''!Mine'', ''!Sub'']" by simp
  from a b c d activate_writes_merged_tags [OF a b, of None] show ?thesis by simp
qed

text \<open>
  The claim C6 as written fails in \<open>duplicateTagsWorld\<close>: the user's list holds
  \<open>!Ref\<close> twice, \<open>concat\<close> keeps the list as it is, and the list written has the entry
  twice.
\<close>

theorem activate_keeps_duplicate_tags:
  "truthy (cfg_get (config duplicateTagsWorld) ''cfnLint.enableAutocomplete'')
   \<and> cfg_get (config duplicateTagsWorld) ''yaml.customTags'' = Tags [''!Ref'', ''!Ref'']
   \<and> take 3 (tagsOf (globalValue
        (config (world_of (activate None duplicateTagsWorld)) ''yaml.customTags''))) =
       [''!Ref'', ''!Ref'', ''!And'']
   \<and> \<not> distinct (tagsOf (globalValue
        (config (world_of (activate None duplicateTagsWorld)) ''yaml.customTags'')))"
proof -
  have a: "truthy (cfg_get (config duplicateTagsWorld) ''cfnLint.enableAutocomplete'')"
    by (simp add: duplicateTagsWorld_def initial_def cfg_get_def globally_def noValue_def)
  have b: "cfg_get (config duplicateTagsWorld) ''yaml.customTags'' = Tags [''!Ref'', ''!Ref'']"
    by (simp add: duplicateTagsWorld_def initial_def cfg_get_def globally_def noValue_def)
  have "globalValue (config (world_of (activate None duplicateTagsWorld)) ''yaml.customTags'')
        = Tags (updateTags [''!Ref'', ''!Ref''])"
    by (simp add: activate_autocomplete [OF a b] config_emit validation_config_other
        config_update_global)
  moreover have "take 3 (updateTags [''!Ref'', ''!Ref'']) = [''!Ref'', ''!Ref'', ''!And'']"
    by (simp add: updateTags_append cloudFormationTags_def)
  moreover have "\<not> distinct (updateTags [''!Ref'', ''!Ref''])"
    by (simp add: distinct_updateTags)
  ultimately show ?thesis using a b by simp
qed

text \<open>
  C10. When \<open>cfnLint.enableAutocomplete\<close> is not truthy, activation goes straight to the
  language client: it leaves the configuration as it is, writes no setting, shows no
  prompt, and does the same whatever the user would have answered.
\<close>

theorem activate_without_autocomplete:
  assumes "\<not> truthy (cfg_get (config w) ''cfnLint.enableAutocomplete'')"
  shows "activate selection w = Ok (emit LanguageClientStart w)
         \<and> config (world_of (activate selection w)) = config w
         \<and> since w (world_of (activate selection w)) = [LanguageClientStart]
         \<and> filter isConfigUpdate (since w (world_of (activate selection w))) = []
         \<and> filter isPrompt (since w (world_of (activate selection w))) = []"
proof -
  have a: "activate selection w = Ok (emit LanguageClientStart w)"
    using assms by (simp add: activate_def)
  have "since w (emit LanguageClientStart w) = [LanguageClientStart]"
    by (rule since_append) (simp add: effects_emit)
  with a show ?thesis by (simp add: config_emit)
qed

theorem activate_without_autocomplete_witness:
  "\<not> truthy (cfg_get (config autocompleteOffWorld) ''cfnLint.enableAutocomplete'')
   \<and> prompted (Some ''yes'') autocompleteOffWorld
   \<and> config (world_of (activate (Some ''yes'') autocompleteOffWorld)) ''yaml.customTags'' =
       globally (Tags [''!Mine''])
   \<and> filter isConfigUpdate
       (since autocompleteOffWorld (world_of (activate (Some ''yes'') autocompleteOffWorld))) = []
   \<and> filter isPrompt
       (since autocompleteOffWorld (world_of (activate (Some ''yes'') autocompleteOffWorld))) = []"
proof -
  have a: "\<not> truthy (cfg_get (config autocompleteOffWorld) ''cfnLint.enableAutocomplete'')"
    by (simp add: autocompleteOffWorld_def initial_def cfg_get_def globally_def noValue_def)
  have p: "prompted (Some ''yes'') autocompleteOffWorld"
    unfolding prompted_iff
    by (simp add: autocompleteOffWorld_def initial_def cfg_get_def globally_def noValue_def)
  have c: "config autocompleteOffWorld ''yaml.customTags'' = globally (Tags [''!Mine''])"
    by (simp add: autocompleteOffWorld_def initial_def)
  note th = activate_without_autocomplete [OF a, of "Some ''yes''"]
  from th have 1: "config (world_of (activate (Some ''yes'') autocompleteOffWorld)) =
      config autocompleteOffWorld"
    by blast
  from th have 2: "filter isConfigUpdate
       (since autocompleteOffWorld (world_of (activate (Some ''yes'') autocompleteOffWorld))) = []"
    by blast
  from th have 3: "filter isPrompt
       (since autocompleteOffWorld (world_of (activate (Some ''yes'') autocompleteOffWorld))) = []"
    by blast
  from a p c 1 2 3 show ?thesis by simp
qed

section \<open>The preview handlers, case by case\<close>

lemma slice0_dot: "slice0 (p @ ''.dot'') (- 4) = p"
  by (simp add: slice0_def)

lemma reload_missing:
  assumes "files w (fsPath (uri_parse api f) @ ''.dot'') = None"
  shows "reloadSidePreview api f w = Ok (emit (ShowErrorMessage previewErrorMessage) w)"
  using assms by (simp add: reloadSidePreview_def Let_def)

lemma reload_create:
  assumes "files w (fsPath (uri_parse api f) @ ''.dot'') = Some content"
    and "previews w (toString (uri_parse api f)) = None"
  shows "reloadSidePreview api f w =
     Ok (w\<lparr>previews := (previews w)(toString (uri_parse api f) \<mapsto> nextPanel w),
           panels := (panels w)(nextPanel w \<mapsto>
             \<lparr>viewType = ''cfnLintPreview'',
              title = ''Template: '' @ fsPath (uri_parse api f),
              enableScripts = True,
              html = getPreviewContent content,
              onDidDispose =
                \<lparr>c_previewKey = toString (uri_parse api f),
                 c_dotFile = fsPath (uri_parse api f) @ ''.dot'',
                 c_uri = uri_parse api f\<rparr>\<rparr>),
           nextPanel := Suc (nextPanel w)\<rparr>)"
  using assms by (simp add: reloadSidePreview_def Let_def slice0_dot)

lemma reload_refresh:
  assumes "files w (fsPath (uri_parse api f) @ ''.dot'') = Some content"
    and "previews w (toString (uri_parse api f)) = Some h"
    and "panels w h = Some p"
  shows "reloadSidePreview api f w =
     Ok (w\<lparr>panels := (panels w)(h \<mapsto> p\<lparr>html := getPreviewContent content\<rparr>)\<rparr>)"
  using assms by (simp add: reloadSidePreview_def Let_def)

lemma reload_disposed:
  assumes "files w (fsPath (uri_parse api f) @ ''.dot'') = Some content"
    and "previews w (toString (uri_parse api f)) = Some h"
    and "panels w h = None"
  shows "reloadSidePreview api f w = Throws WebviewDisposed w"
  using assms by (simp add: reloadSidePreview_def Let_def)

lemma dispose_open:
  assumes "panels w h = Some p"
  shows "dispose h w =
     (case files w (c_dotFile (onDidDispose p)) of
        None \<Rightarrow>
          Throws ENOENT
            (w\<lparr>panels := (panels w)(h := None),
               previews := (previews w)(c_previewKey (onDidDispose p) := None)\<rparr>)
      | Some content \<Rightarrow>
          Ok (emit (SendNotification ''cfn/previewClosed'' (PUri (c_uri (onDidDispose p))))
               (w\<lparr>panels := (panels w)(h := None),
                  previews := (previews w)(c_previewKey (onDidDispose p) := None),
                  files := (files w)(c_dotFile (onDidDispose p) := None)\<rparr>)))"
  using assms by (simp add: dispose_def previewDisposed_def Let_def split: option.split)

section \<open>The registry stays consistent\<close>

lemma consistent_initial: "consistent (initial cfg fs)"
  by (simp add: consistent_def initial_def)

lemma consistent_cong:
  assumes "consistent w"
    and "previews w' = previews w" and "panels w' = panels w" and "nextPanel w' = nextPanel w"
  shows "consistent w'"
  using assms by (simp add: consistent_def)

lemma consistent_entry:
  "consistent w \<Longrightarrow> previews w k = Some h \<Longrightarrow>
   \<exists>p. panels w h = Some p \<and> c_previewKey (onDidDispose p) = k"
  unfolding consistent_def by blast

lemma consistent_panel:
  "consistent w \<Longrightarrow> panels w h = Some p \<Longrightarrow>
   previews w (c_previewKey (onDidDispose p)) = Some h"
  unfolding consistent_def by blast

lemma consistent_bound: "consistent w \<Longrightarrow> panels w h = Some p \<Longrightarrow> h < nextPanel w"
  unfolding consistent_def by blast

lemma consistent_emit: "consistent w \<Longrightarrow> consistent (emit e w)"
  by (erule consistent_cong) (simp_all add: emit_def)

lemma consistent_removed:
  assumes c: "consistent w" and p: "panels w h = Some p"
    and pr: "previews w' = (previews w)(c_previewKey (onDidDispose p) := None)"
    and pa: "panels w' = (panels w)(h := None)"
    and n: "nextPanel w' = nextPanel w"
  shows "consistent w'"
proof -
  let ?k = "c_previewKey (onDidDispose p)"
  from c p have reg: "previews w ?k = Some h"
    by (simp add: consistent_def)
  have 1: "\<exists>q. panels w' h' = Some q \<and> c_previewKey (onDidDispose q) = k"
    if "previews w' k = Some h'" for k h'
  proof -
    from that pr have k: "k \<noteq> ?k" and e: "previews w k = Some h'"
      by (auto split: if_splits)
    from consistent_entry [OF c e]
    obtain q where q: "panels w h' = Some q" "c_previewKey (onDidDispose q) = k"
      by blast
    from q p k have "h' \<noteq> h" by auto
    with q pa show ?thesis by simp
  qed
  have 2: "previews w' (c_previewKey (onDidDispose q)) = Some h'"
    if "panels w' h' = Some q" for h' q
  proof -
    from that pa have h: "h' \<noteq> h" and q: "panels w h' = Some q"
      by (auto split: if_splits)
    from c q have e: "previews w (c_previewKey (onDidDispose q)) = Some h'"
      by (simp add: consistent_def)
    with reg h have "c_previewKey (onDidDispose q) \<noteq> ?k" by auto
    with e pr show ?thesis by simp
  qed
  have 3: "h' < nextPanel w'" if "panels w' h' = Some q" for h' q
  proof -
    from that pa have "panels w h' = Some q" by (auto split: if_splits)
    with c n show ?thesis by (simp add: consistent_def)
  qed
  from 1 2 3 show ?thesis unfolding consistent_def by blast
qed

lemma consistent_dispose:
  assumes "consistent w"
  shows "consistent (world_of (dispose h w))"
proof (cases "panels w h")
  case None
  with assms show ?thesis by (simp add: dispose_def)
next
  case (Some p)
  show ?thesis
    by (rule consistent_removed [OF assms Some])
      (simp_all add: dispose_open [OF Some] emit_def split: option.split)
qed

lemma consistent_added:
  assumes c: "consistent w" and none: "previews w k = None"
    and key: "c_previewKey (onDidDispose p) = k"
    and pr: "previews w' = (previews w)(k \<mapsto> nextPanel w)"
    and pa: "panels w' = (panels w)(nextPanel w \<mapsto> p)"
    and n: "nextPanel w' = Suc (nextPanel w)"
  shows "consistent w'"
proof -
  have fresh: "panels w (nextPanel w) = None"
  proof (cases "panels w (nextPanel w)")
    case (Some q)
    with c have "nextPanel w < nextPanel w" unfolding consistent_def by blast
    then show ?thesis by simp
  qed simp
  have 1: "\<exists>q. panels w' h' = Some q \<and> c_previewKey (onDidDispose q) = k'"
    if "previews w' k' = Some h'" for k' h'
  proof (cases "k' = k")
    case True
    with that pr have "h' = nextPanel w" by simp
    with pa key True show ?thesis by simp
  next
    case False
    with that pr have e: "previews w k' = Some h'" by simp
    from consistent_entry [OF c e]
    obtain q where q: "panels w h' = Some q" "c_previewKey (onDidDispose q) = k'"
      by blast
    from q fresh have "h' \<noteq> nextPanel w" by auto
    with q pa show ?thesis by simp
  qed
  have 2: "previews w' (c_previewKey (onDidDispose q)) = Some h'"
    if "panels w' h' = Some q" for h' q
  proof (cases "h' = nextPanel w")
    case True
    with that pa have "q = p" by simp
    with key pr True show ?thesis by simp
  next
    case False
    with that pa have q: "panels w h' = Some q" by simp
    with c have e: "previews w (c_previewKey (onDidDispose q)) = Some h'"
      by (simp add: consistent_def)
    with none have "c_previewKey (onDidDispose q) \<noteq> k" by auto
    with e pr show ?thesis by simp
  qed
  have 3: "h' < nextPanel w'" if "panels w' h' = Some q" for h' q
  proof (cases "h' = nextPanel w")
    case True
    with n show ?thesis by simp
  next
    case False
    with that pa have "panels w h' = Some q" by simp
    with c have "h' < nextPanel w" unfolding consistent_def by blast
    with n show ?thesis by simp
  qed
  from 1 2 3 show ?thesis unfolding consistent_def by blast
qed

lemma consistent_refreshed:
  assumes c: "consistent w" and p: "panels w h = Some p"
    and key: "onDidDispose p' = onDidDispose p"
    and pr: "previews w' = previews w"
    and pa: "panels w' = (panels w)(h \<mapsto> p')"
    and n: "nextPanel w' = nextPanel w"
  shows "consistent w'"
proof -
  have same: "\<exists>q0. panels w h' = Some q0 \<and> onDidDispose q0 = onDidDispose q"
    if "panels w' h' = Some q" for h' q
    using that pa p key by (cases "h' = h") simp_all
  have 1: "\<exists>q. panels w' h' = Some q \<and> c_previewKey (onDidDispose q) = k"
    if "previews w' k = Some h'" for k h'
  proof -
    from that pr have e: "previews w k = Some h'" by simp
    from consistent_entry [OF c e]
    obtain q where q: "panels w h' = Some q" "c_previewKey (onDidDispose q) = k"
      by blast
    show ?thesis
      using q p key pa by (cases "h' = h") simp_all
  qed
  have 2: "previews w' (c_previewKey (onDidDispose q)) = Some h'"
    if "panels w' h' = Some q" for h' q
  proof -
    from same [OF that] obtain q0
      where q0: "panels w h' = Some q0" "onDidDispose q0 = onDidDispose q"
      by blast
    from consistent_panel [OF c q0(1)] q0(2) pr show ?thesis by simp
  qed
  have 3: "h' < nextPanel w'" if "panels w' h' = Some q" for h' q
  proof -
    from same [OF that] obtain q0 where "panels w h' = Some q0" by blast
    from consistent_bound [OF c this] n show ?thesis by simp
  qed
  from 1 2 3 show ?thesis unfolding consistent_def by blast
qed

lemma consistent_reload:
  assumes c: "consistent w"
  shows "consistent (world_of (reloadSidePreview api f w))"
proof (cases "files w (fsPath (uri_parse api f) @ ''.dot'')")
  case None
  with c show ?thesis by (simp add: reload_missing consistent_emit)
next
  case art: (Some content)
  let ?k = "toString (uri_parse api f)"
  show ?thesis
  proof (cases "previews w ?k")
    case None
    show ?thesis
      unfolding reload_create [OF art None]
      by (rule consistent_added [OF c None]) simp_all
  next
    case (Some h)
    from consistent_entry [OF c Some]
    obtain p where p: "panels w h = Some p" "c_previewKey (onDidDispose p) = ?k"
      by blast
    show ?thesis
      unfolding reload_refresh [OF art Some p(1)]
      by (rule consistent_refreshed [OF c p(1)]) simp_all
  qed
qed

lemma consistent_step:
  assumes "consistent w"
  shows "consistent (world_of (step api ev w))"
proof (cases ev)
  case (RequestPreview ed)
  with assms show ?thesis
    by (cases ed) (simp_all add: sidePreview_def consistent_emit)
next
  case (PreviewIsAvailable u)
  with assms show ?thesis by (simp add: consistent_reload)
next
  case (FileClosed u)
  with assms show ?thesis
    by (cases "previews w u") (simp_all add: fileclosed_def consistent_dispose)
next
  case (PanelClosed h)
  with assms show ?thesis by (simp add: consistent_dispose)
next
  case (FileWritten path content)
  with assms show ?thesis by (simp add: consistent_def)
next
  case (FileRemoved path)
  with assms show ?thesis by (simp add: consistent_def)
qed

lemma consistent_run: "consistent w \<Longrightarrow> consistent (run api evs w)"
  by (induction evs arbitrary: w) (simp_all add: consistent_step)

lemma consistent_reachable: "consistent (run api evs (initial cfg fs))"
  by (rule consistent_run [OF consistent_initial])

lemma panelsFor_consistent:
  assumes "consistent w"
  shows "panelsFor w k = set_option (previews w k)"
proof (cases "previews w k")
  case None
  with assms show ?thesis unfolding consistent_def panelsFor_def by force
next
  case (Some h)
  with assms show ?thesis unfolding consistent_def panelsFor_def by force
qed

text \<open>
  C1. After any sequence of events from activation (preview requests, preview-available
  and file-closed notifications, panels closed by the user, files written and removed
  outside), and so at every moment of it, the panels open for a document key are exactly
  what the registry holds under the key: none or one, never two.
\<close>

theorem at_most_one_panel_per_document:
  "panelsFor (run api (take n evs) (initial cfg fs)) k =
     set_option (previews (run api (take n evs) (initial cfg fs)) k)
   \<and> finite (panelsFor (run api (take n evs) (initial cfg fs)) k)
   \<and> card (panelsFor (run api (take n evs) (initial cfg fs)) k) \<le> 1"
proof -
  let ?w = "run api (take n evs) (initial cfg fs)"
  have e: "panelsFor ?w k = set_option (previews ?w k)"
    by (rule panelsFor_consistent [OF consistent_reachable])
  show ?thesis
    unfolding e by (cases "previews ?w k") simp_all
qed

text \<open>The bound is reached: in \<open>previewOpenWorld\<close> one panel is open for \<open>/A.yaml\<close>.\<close>

lemma panelsFor_previewOpenWorld: "panelsFor previewOpenWorld ''file:///A.yaml'' = {0}"
proof -
  have c: "consistent previewOpenWorld"
    unfolding previewOpenWorld_def emptyWorld_def by (rule consistent_reachable)
  have "previews previewOpenWorld ''file:///A.yaml'' = Some 0"
    by (simp add: previewOpenWorld_def emptyWorld_def initial_def sidePreview_def emit_def
        reloadSidePreview_def exampleApi_def Let_def)
  with c show ?thesis by (simp add: panelsFor_consistent)
qed

section \<open>A preview becomes available\<close>

lemma since_emit: "since w (emit e w) = [e]"
  by (rule since_append) (simp add: effects_emit)

lemma panelsFor_entry:
  "consistent w \<Longrightarrow> previews w k = Some h \<Longrightarrow> panelsFor w k = {h}"
  by (simp add: panelsFor_consistent)

lemma panelsFor_no_entry:
  "consistent w \<Longrightarrow> previews w k = None \<Longrightarrow> panelsFor w k = {}"
  by (simp add: panelsFor_consistent)

text \<open>
  C3. When the artifact, the file at the document's path followed by \<open>.dot\<close>, does not
  exist, the handler of a preview-available notification shows the error message and
  returns: the registry, the panels, the files and the configuration are as before.
\<close>

theorem preview_without_artifact:
  assumes "files w (fsPath (uri_parse api f) @ ''.dot'') = None"
  shows "thrown (reloadSidePreview api f w) = None
         \<and> since w (world_of (reloadSidePreview api f w)) =
             [ShowErrorMessage previewErrorMessage]
         \<and> previews (world_of (reloadSidePreview api f w)) = previews w
         \<and> panels (world_of (reloadSidePreview api f w)) = panels w
         \<and> nextPanel (world_of (reloadSidePreview api f w)) = nextPanel w
         \<and> files (world_of (reloadSidePreview api f w)) = files w
         \<and> config (world_of (reloadSidePreview api f w)) = config w"
  by (simp add: reload_missing [OF assms] since_emit) (simp add: emit_def)

theorem preview_without_artifact_witness:
  "files emptyWorld (fsPath (uri_parse exampleApi ''file:///A.yaml'') @ ''.dot'') = None
   \<and> since emptyWorld (world_of (reloadSidePreview exampleApi ''file:///A.yaml'' emptyWorld)) =
       [ShowErrorMessage previewErrorMessage]
   \<and> previews (world_of (reloadSidePreview exampleApi ''file:///A.yaml'' emptyWorld)) =
       Map.empty
   \<and> panels (world_of (reloadSidePreview exampleApi ''file:///A.yaml'' emptyWorld)) =
       Map.empty"
proof -
  have a: "files emptyWorld (fsPath (uri_parse exampleApi ''file:///A.yaml'') @ ''.dot'') = None"
    by (simp add: emptyWorld_def initial_def)
  have b: "previews emptyWorld = Map.empty" "panels emptyWorld = Map.empty"
    by (simp_all add: emptyWorld_def initial_def)
  from a b preview_without_artifact [OF a] show ?thesis by simp
qed

text \<open>
  C2. In a world the extension can reach, when the artifact exists the handler of a
  preview-available notification returns without an error. If the registry has no entry
  for the document key, one panel is created, under a reference that was not in use, with
  the rendered artifact as its content, and it is registered under the key: it is then
  the one panel open for the key. If the registry has an entry, the panel it refers to
  gets the rendered artifact as its content, in place: the registry, the references of the
  open panels and the next reference are as before.
\<close>

theorem preview_available_creates_or_refreshes:
  assumes reach: "w = run api evs (initial cfg fs)"
    and art: "files w (fsPath (uri_parse api f) @ ''.dot'') = Some content"
  shows "thrown (reloadSidePreview api f w) = None
         \<and> (previews w (toString (uri_parse api f)) = None \<longrightarrow>
              panels w (nextPanel w) = None
              \<and> panelsFor w (toString (uri_parse api f)) = {}
              \<and> previews (world_of (reloadSidePreview api f w)) =
                  (previews w)(toString (uri_parse api f) \<mapsto> nextPanel w)
              \<and> (\<exists>p. panels (world_of (reloadSidePreview api f w)) =
                        (panels w)(nextPanel w \<mapsto> p)
                      \<and> html p = getPreviewContent content
                      \<and> title p = ''Template: '' @ fsPath (uri_parse api f))
              \<and> panelsFor (world_of (reloadSidePreview api f w)) (toString (uri_parse api f)) =
                  {nextPanel w})
         \<and> (\<forall>h. previews w (toString (uri_parse api f)) = Some h \<longrightarrow>
              previews (world_of (reloadSidePreview api f w)) = previews w
              \<and> nextPanel (world_of (reloadSidePreview api f w)) = nextPanel w
              \<and> (\<exists>p. panels w h = Some p
                      \<and> panels (world_of (reloadSidePreview api f w)) =
                          (panels w)(h \<mapsto> p\<lparr>html := getPreviewContent content\<rparr>))
              \<and> dom (panels (world_of (reloadSidePreview api f w))) = dom (panels w)
              \<and> panelsFor (world_of (reloadSidePreview api f w)) (toString (uri_parse api f)) =
                  {h})"
proof -
  let ?k = "toString (uri_parse api f)"
  let ?w' = "world_of (reloadSidePreview api f w)"
  have c: "consistent w"
    unfolding reach by (rule consistent_reachable)
  have c': "consistent ?w'"
    by (rule consistent_reload [OF c])
  have create: "thrown (reloadSidePreview api f w) = None
      \<and> panels w (nextPanel w) = None
      \<and> panelsFor w ?k = {}
      \<and> previews ?w' = (previews w)(?k \<mapsto> nextPanel w)
      \<and> (\<exists>p. panels ?w' = (panels w)(nextPanel w \<mapsto> p)
             \<and> html p = getPreviewContent content
             \<and> title p = ''Template: '' @ fsPath (uri_parse api f))
      \<and> panelsFor ?w' ?k = {nextPanel w}"
    if none: "previews w ?k = None"
  proof -
    have fresh: "panels w (nextPanel w) = None"
    proof (cases "panels w (nextPanel w)")
      case (Some q)
      from consistent_bound [OF c Some] show ?thesis by simp
    qed simp
    have pr: "previews ?w' = (previews w)(?k \<mapsto> nextPanel w)"
      by (simp add: reload_create [OF art none])
    then have "previews ?w' ?k = Some (nextPanel w)" by simp
    then have one: "panelsFor ?w' ?k = {nextPanel w}"
      by (rule panelsFor_entry [OF c'])
    let ?p = "\<lparr>viewType = ''cfnLintPreview'',
        title = ''Template: '' @ fsPath (uri_parse api f),
        enableScripts = True,
        html = getPreviewContent content,
        onDidDispose =
          \<lparr>c_previewKey = ?k, c_dotFile = fsPath (uri_parse api f) @ ''.dot'',
           c_uri = uri_parse api f\<rparr>\<rparr>"
    have "panels ?w' = (panels w)(nextPanel w \<mapsto> ?p)"
      by (simp add: reload_create [OF art none])
    then have ex: "\<exists>p. panels ?w' = (panels w)(nextPanel w \<mapsto> p)
        \<and> html p = getPreviewContent content
        \<and> title p = ''Template: '' @ fsPath (uri_parse api f)"
      by (intro exI [of _ ?p]) simp
    have ok: "thrown (reloadSidePreview api f w) = None"
      by (simp add: reload_create [OF art none])
    from ok fresh pr one ex panelsFor_no_entry [OF c none] show ?thesis
      by blast
  qed
  have refresh: "thrown (reloadSidePreview api f w) = None
      \<and> previews ?w' = previews w
      \<and> nextPanel ?w' = nextPanel w
      \<and> (\<exists>p. panels w h = Some p
             \<and> panels ?w' = (panels w)(h \<mapsto> p\<lparr>html := getPreviewContent content\<rparr>))
      \<and> dom (panels ?w') = dom (panels w)
      \<and> panelsFor ?w' ?k = {h}"
    if some: "previews w ?k = Some h" for h
  proof -
    from consistent_entry [OF c some] obtain p where p: "panels w h = Some p"
      by blast
    note r = reload_refresh [OF art some p]
    have pr: "previews ?w' = previews w" by (simp add: r)
    with some have "previews ?w' ?k = Some h" by simp
    then have one: "panelsFor ?w' ?k = {h}"
      by (rule panelsFor_entry [OF c'])
    have d: "dom (panels ?w') = dom (panels w)"
      using p by (auto simp: r)
    have pa: "panels ?w' = (panels w)(h \<mapsto> p\<lparr>html := getPreviewContent content\<rparr>)"
      by (simp add: r)
    have ok: "thrown (reloadSidePreview api f w) = None" "nextPanel ?w' = nextPanel w"
      by (simp_all add: r)
    from ok p pa pr one d show ?thesis by blast
  qed
  show ?thesis
  proof (cases "previews w ?k")
    case None
    with create show ?thesis by simp
  next
    case (Some h)
    with refresh [OF Some] show ?thesis by simp
  qed
qed

lemma exampleApi_parse:
  "toString (uri_parse exampleApi ''file:///A.yaml'') = ''file:///A.yaml''"
  "fsPath (uri_parse exampleApi ''file:///A.yaml'') = ''/A.yaml''"
  by (simp_all add: exampleApi_def)

lemma artifactWorld_eval:
  "files artifactWorld ''/A.yaml.dot'' = Some ''digraph {}''"
  "previews artifactWorld ''file:///A.yaml'' = None"
  "nextPanel artifactWorld = 0"
  by (simp_all add: artifactWorld_def emptyWorld_def initial_def)

lemma previewOpenWorld_eval:
  "files previewOpenWorld ''/A.yaml.dot'' = Some ''digraph { a -> b }''"
  "previews previewOpenWorld ''file:///A.yaml'' = Some 0"
  by (simp_all add: previewOpenWorld_def emptyWorld_def initial_def sidePreview_def emit_def
      reloadSidePreview_def exampleApi_parse Let_def)

theorem preview_available_creates_or_refreshes_witness:
  "files artifactWorld (fsPath (uri_parse exampleApi ''file:///A.yaml'') @ ''.dot'') =
     Some ''digraph {}''
   \<and> previews artifactWorld ''file:///A.yaml'' = None
   \<and> previews (world_of (reloadSidePreview exampleApi ''file:///A.yaml'' artifactWorld)) =
       (previews artifactWorld)(''file:///A.yaml'' \<mapsto> 0)
   \<and> panelsFor (world_of (reloadSidePreview exampleApi ''file:///A.yaml'' artifactWorld))
        ''file:///A.yaml'' = {0}
   \<and> files previewOpenWorld (fsPath (uri_parse exampleApi ''file:///A.yaml'') @ ''.dot'') =
       Some ''digraph { a -> b }''
   \<and> previews previewOpenWorld ''file:///A.yaml'' = Some 0
   \<and> previews (world_of (reloadSidePreview exampleApi ''file:///A.yaml'' previewOpenWorld)) =
       previews previewOpenWorld
   \<and> panelsFor (world_of (reloadSidePreview exampleApi ''file:///A.yaml'' previewOpenWorld))
        ''file:///A.yaml'' = {0}"
proof -
  have r1: "artifactWorld =
      run exampleApi [FileWritten ''/A.yaml.dot'' ''digraph {}''] (initial (\<lambda>k. noValue) Map.empty)"
    by (simp only: artifactWorld_def emptyWorld_def)
  have a1: "files artifactWorld (fsPath (uri_parse exampleApi ''file:///A.yaml'') @ ''.dot'') =
      Some ''digraph {}''"
    by (simp add: exampleApi_parse artifactWorld_eval)
  have r2: "previewOpenWorld =
      run exampleApi
       [RequestPreview (Some ''/A.yaml''),
        FileWritten ''/A.yaml.dot'' ''digraph {}'',
        PreviewIsAvailable ''file:///A.yaml'',
        FileWritten ''/A.yaml.dot'' ''digraph { a -> b }'']
       (initial (\<lambda>k. noValue) Map.empty)"
    by (simp only: previewOpenWorld_def emptyWorld_def)
  have a2: "files previewOpenWorld (fsPath (uri_parse exampleApi ''file:///A.yaml'') @ ''.dot'') =
      Some ''digraph { a -> b }''"
    by (simp add: exampleApi_parse previewOpenWorld_eval)
  note t1 = preview_available_creates_or_refreshes [OF r1 a1]
  note t2 = preview_available_creates_or_refreshes [OF r2 a2]
  from t1 have c1:
    "previews (world_of (reloadSidePreview exampleApi ''file:///A.yaml'' artifactWorld)) =
       (previews artifactWorld)(''file:///A.yaml'' \<mapsto> 0)"
    "panelsFor (world_of (reloadSidePreview exampleApi ''file:///A.yaml'' artifactWorld))
        ''file:///A.yaml'' = {0}"
    by (simp_all add: exampleApi_parse artifactWorld_eval)
  from t2 have c2:
    "previews (world_of (reloadSidePreview exampleApi ''file:///A.yaml'' previewOpenWorld)) =
       previews previewOpenWorld"
    "panelsFor (world_of (reloadSidePreview exampleApi ''file:///A.yaml'' previewOpenWorld))
        ''file:///A.yaml'' = {0}"
    by (simp_all add: exampleApi_parse previewOpenWorld_eval)
  from a1 a2 c1 c2 artifactWorld_eval(2) previewOpenWorld_eval(2) show ?thesis by simp
qed

section \<open>Closing\<close>

lemma panel_close_with_artifact:
  assumes "panels w h = Some p"
    and "files w (c_dotFile (onDidDispose p)) = Some content"
  shows "thrown (dispose h w) = None
         \<and> previews (world_of (dispose h w)) (c_previewKey (onDidDispose p)) = None
         \<and> panels (world_of (dispose h w)) h = None
         \<and> files (world_of (dispose h w)) (c_dotFile (onDidDispose p)) = None
         \<and> since w (world_of (dispose h w)) =
             [SendNotification ''cfn/previewClosed'' (PUri (c_uri (onDidDispose p)))]"
proof -
  have "effects (world_of (dispose h w)) = effects w
      @ [SendNotification ''cfn/previewClosed'' (PUri (c_uri (onDidDispose p)))]"
    using assms by (simp add: dispose_open emit_def)
  from since_append [OF this] assms show ?thesis
    by (simp add: dispose_open emit_def)
qed

lemma panel_close_without_artifact:
  assumes "panels w h = Some p"
    and "files w (c_dotFile (onDidDispose p)) = None"
  shows "thrown (dispose h w) = Some ENOENT
         \<and> previews (world_of (dispose h w)) (c_previewKey (onDidDispose p)) = None
         \<and> panels (world_of (dispose h w)) h = None
         \<and> since w (world_of (dispose h w)) = []"
  using assms by (simp add: dispose_open since_def)

lemma artifactGoneWorld_eval:
  "files artifactGoneWorld ''/A.yaml.dot'' = None"
  "previews artifactGoneWorld ''file:///A.yaml'' = Some 0"
  "\<exists>p. panels artifactGoneWorld 0 = Some p
       \<and> c_dotFile (onDidDispose p) = ''/A.yaml.dot''
       \<and> c_previewKey (onDidDispose p) = ''file:///A.yaml''"
  by (simp_all add: artifactGoneWorld_def emptyWorld_def initial_def reloadSidePreview_def
      exampleApi_parse Let_def)

text \<open>
  C4 at the input where the code fails it. The panel of \<open>/A.yaml\<close> is open and its
  artifact has been removed from the disk by someone else. The user closes the panel: the
  entry of the registry is deleted, \<open>fs.unlinkSync\<close> throws ENOENT, and the notification
  \<open>cfn/previewClosed\<close> of line 147 is never sent.
\<close>

theorem panel_close_after_artifact_removed:
  "previews artifactGoneWorld ''file:///A.yaml'' = Some 0
   \<and> files artifactGoneWorld ''/A.yaml.dot'' = None
   \<and> thrown (step exampleApi (PanelClosed 0) artifactGoneWorld) = Some ENOENT
   \<and> previews (world_of (step exampleApi (PanelClosed 0) artifactGoneWorld))
        ''file:///A.yaml'' = None
   \<and> filter (isNotification ''cfn/previewClosed'')
        (since artifactGoneWorld (world_of (step exampleApi (PanelClosed 0) artifactGoneWorld)))
      = []"
proof -
  from artifactGoneWorld_eval(3) obtain p where p: "panels artifactGoneWorld 0 = Some p"
    "c_dotFile (onDidDispose p) = ''/A.yaml.dot''"
    "c_previewKey (onDidDispose p) = ''file:///A.yaml''"
    by blast
  from p(2) artifactGoneWorld_eval(1)
  have "files artifactGoneWorld (c_dotFile (onDidDispose p)) = None" by simp
  from panel_close_without_artifact [OF p(1) this] p(3) artifactGoneWorld_eval(1,2)
  show ?thesis by simp
qed

lemma fileclosed_without_panel:
  "previews w u = None \<Longrightarrow> fileclosed u w = Throws TypeError w"
  by (simp add: fileclosed_def)

lemma previewClosedWorld_eval: "previews previewClosedWorld ''file:///A.yaml'' = None"
  by (simp add: previewClosedWorld_def emptyWorld_def initial_def reloadSidePreview_def
      sidePreview_def dispose_def previewDisposed_def emit_def exampleApi_parse Let_def)

text \<open>
  C5 at the input where the code fails it, the scenario of the specification: the preview
  of \<open>/A.yaml\<close> was opened and closed by the user, and before any preview at all. The
  server sends \<open>cfn/fileclosed\<close>; the registry has no entry, \<open>previews[uri]\<close> is
  \<open>undefined\<close>, and calling \<open>dispose\<close> on it throws a TypeError. The world is unchanged.
\<close>

theorem fileclosed_without_panel_throws:
  "previews previewClosedWorld ''file:///A.yaml'' = None
   \<and> step exampleApi (FileClosed ''file:///A.yaml'') previewClosedWorld =
       Throws TypeError previewClosedWorld
   \<and> previews emptyWorld ''file:///A.yaml'' = None
   \<and> step exampleApi (FileClosed ''file:///A.yaml'') emptyWorld = Throws TypeError emptyWorld"
proof -
  have "previews emptyWorld ''file:///A.yaml'' = None"
    by (simp add: emptyWorld_def initial_def)
  with previewClosedWorld_eval show ?thesis
    by (simp add: fileclosed_without_panel)
qed

end
